theory Spec2Isabelle
  imports Complex_Main "HOL-Library.Word"
begin

section \<open>JavaScript strings\<close>

text \<open>
  A JavaScript string is a sequence of UTF-16 code units, and \<open>password.length\<close> counts
  code units. String literals of the source are all ASCII; \<open>js\<close> turns such a literal
  into its code units.
\<close>

type_synonym code_unit = "16 word"
type_synonym js_string = "code_unit list"

definition js :: "string \<Rightarrow> js_string" where
  "js s = map (\<lambda>c. word_of_nat (of_char c)) s"

text \<open>The character classes of the regular expressions used by the page.\<close>

definition isUpper :: "code_unit \<Rightarrow> bool" where
  \<comment> \<open>\<open>[A-Z]\<close>\<close>
  "isUpper c = (65 \<le> c \<and> c \<le> 90)"

definition isLower :: "code_unit \<Rightarrow> bool" where
  \<comment> \<open>\<open>[a-z]\<close>\<close>
  "isLower c = (97 \<le> c \<and> c \<le> 122)"

definition isDigit :: "code_unit \<Rightarrow> bool" where
  \<comment> \<open>\<open>\d\<close> (no unicode flag: exactly \<open>[0-9]\<close>)\<close>
  "isDigit c = (48 \<le> c \<and> c \<le> 57)"

definition isSymbol :: "code_unit \<Rightarrow> bool" where
  \<comment> \<open>\<open>[^A-Za-z0-9]\<close>\<close>
  "isSymbol c = (\<not> (isUpper c \<or> isLower c \<or> isDigit c))"

definition test :: "(code_unit \<Rightarrow> bool) \<Rightarrow> js_string \<Rightarrow> bool" where
  \<comment> \<open>\<open>/[cls]/.test(s)\<close>: some code unit of \<open>s\<close> is in the class\<close>
  "test cls s = list_ex cls s"

text \<open>
  \<open>String.prototype.toLowerCase\<close>. On a string of ASCII code units it maps \<open>A-Z\<close> to
  \<open>a-z\<close> and leaves everything else alone. What it does to a string with other code
  units is fixed by the Unicode case tables, which are not part of the repository: that
  mapping is the parameter \<open>uc\<close>, and nothing is assumed about it.
\<close>

definition toLowerCase :: "(js_string \<Rightarrow> js_string) \<Rightarrow> js_string \<Rightarrow> js_string" where
  "toLowerCase uc s =
     (if list_all (\<lambda>c. c < 128) s
      then map (\<lambda>c. if isUpper c then c + 32 else c) s
      else uc s)"

fun startsWith :: "js_string \<Rightarrow> js_string \<Rightarrow> bool" where
  "startsWith s [] = True"
| "startsWith [] (w # ws) = False"
| "startsWith (c # cs) (w # ws) = (c = w \<and> startsWith cs ws)"

fun includes_str :: "js_string \<Rightarrow> js_string \<Rightarrow> bool" where
  \<comment> \<open>\<open>s.includes(w)\<close>: \<open>w\<close> occurs in \<open>s\<close> at some position\<close>
  "includes_str [] w = startsWith [] w"
| "includes_str (c # cs) w = (startsWith (c # cs) w \<or> includes_str cs w)"

section \<open>The local analysis of the index page\<close>

datatype strength = Weak | Moderate | Strong

record features =
  length_f :: nat
  hasUppercase :: bool
  hasLowercase :: bool
  hasDigits :: bool
  hasSymbols :: bool
  hasCommonWords :: bool
  hasKeyboardPatterns :: bool

definition commonWords :: "js_string list" where
  "commonWords =
     [js ''password'', js ''123456'', js ''qwerty'', js ''admin'', js ''login'', js ''welcome'']"

definition checkCommonWords :: "(js_string \<Rightarrow> js_string) \<Rightarrow> js_string \<Rightarrow> bool" where
  "checkCommonWords uc password =
     list_ex (\<lambda>word. includes_str (toLowerCase uc password) word) commonWords"

definition patterns :: "js_string list" where
  "patterns = [js ''qwerty'', js ''asdf'', js ''1234'', js ''abcd'']"

definition checkKeyboardPatterns :: "(js_string \<Rightarrow> js_string) \<Rightarrow> js_string \<Rightarrow> bool" where
  "checkKeyboardPatterns uc password =
     list_ex (\<lambda>pattern. includes_str (toLowerCase uc password) pattern) patterns"

text \<open>The object literal that \<open>analyzePasswordLocally\<close> builds first.\<close>

definition featuresOf :: "(js_string \<Rightarrow> js_string) \<Rightarrow> js_string \<Rightarrow> features" where
  "featuresOf uc password =
     \<lparr> length_f = length password,
       hasUppercase = test isUpper password,
       hasLowercase = test isLower password,
       hasDigits = test isDigit password,
       hasSymbols = test isSymbol password,
       hasCommonWords = checkCommonWords uc password,
       hasKeyboardPatterns = checkKeyboardPatterns uc password \<rparr>"

text \<open>
  The score is a sum of small integers, which JavaScript numbers hold exactly: it is
  modelled as an \<open>int\<close>.
\<close>

definition calculateScore :: "features \<Rightarrow> int" where
  "calculateScore f =
     (let score = 0;
          score = (if 8 \<le> length_f f then score + 20 else score);
          score = (if 12 \<le> length_f f then score + 10 else score);
          score = (if hasUppercase f then score + 15 else score);
          score = (if hasLowercase f then score + 15 else score);
          score = (if hasDigits f then score + 15 else score);
          score = (if hasSymbols f then score + 20 else score);
          score = (if \<not> hasCommonWords f then score + 15 else score);
          score = (if \<not> hasKeyboardPatterns f then score + 10 else score)
      in min score 100)"

definition getStrengthLevel :: "int \<Rightarrow> strength" where
  "getStrengthLevel score =
     (if score < 40 then Weak
      else if score < 70 then Moderate
      else Strong)"

definition generateSuggestions :: "features \<Rightarrow> string list" where
  "generateSuggestions f =
     (let suggestions = [];
          suggestions = (if length_f f < 8
             then suggestions @ [''Use at least 8 characters''] else suggestions);
          suggestions = (if \<not> hasUppercase f
             then suggestions @ [''Add uppercase letters''] else suggestions);
          suggestions = (if \<not> hasLowercase f
             then suggestions @ [''Add lowercase letters''] else suggestions);
          suggestions = (if \<not> hasDigits f
             then suggestions @ [''Include numbers''] else suggestions);
          suggestions = (if \<not> hasSymbols f
             then suggestions @ [''Add special characters (!@#$%^&*)''] else suggestions);
          suggestions = (if hasCommonWords f
             then suggestions @ [''Avoid common words''] else suggestions);
          suggestions = (if hasKeyboardPatterns f
             then suggestions @ [''Avoid keyboard patterns (qwerty, 123)''] else suggestions)
      in suggestions)"

section \<open>Entropy\<close>

text \<open>
  The entropy is computed with \<open>Math.pow\<close> and \<open>Math.log2\<close> on IEEE-754 doubles. The
  model keeps the range of a double and the special values: a finite result is an exact
  real (rounding to 53 bits is not modelled), and a power whose exact value is at or
  beyond \<open>2^1024 - 2^970\<close>, the point from which rounding no longer gives the largest
  double \<open>2^1024 - 2^971\<close>, is \<open>Infinity\<close>.
\<close>

datatype number = NaN | NegInfinity | Finite real | PosInfinity

definition Math_pow :: "nat \<Rightarrow> nat \<Rightarrow> number" where
  \<comment> \<open>\<open>Math.pow(b, e)\<close> for the non-negative integers it is called with;
      \<open>Math.pow(0, 0)\<close> is 1\<close>
  "Math_pow b e =
     (if b ^ e < 2 ^ 1024 - 2 ^ 970 then Finite (real (b ^ e)) else PosInfinity)"

fun Math_log2 :: "number \<Rightarrow> number" where
  "Math_log2 NaN = NaN"
| "Math_log2 NegInfinity = NaN"
| "Math_log2 PosInfinity = PosInfinity"
| "Math_log2 (Finite x) =
     (if x < 0 then NaN else if x = 0 then NegInfinity else Finite (log 2 x))"

fun number_le :: "number \<Rightarrow> number \<Rightarrow> bool" where
  \<comment> \<open>\<open>x <= y\<close> on numbers: false as soon as one side is \<open>NaN\<close>\<close>
  "number_le NaN y = False"
| "number_le x NaN = False"
| "number_le NegInfinity y = True"
| "number_le x PosInfinity = True"
| "number_le (Finite x) (Finite y) = (x \<le> y)"
| "number_le (Finite x) NegInfinity = False"
| "number_le PosInfinity (Finite y) = False"
| "number_le PosInfinity NegInfinity = False"

definition getCharsetSize :: "js_string \<Rightarrow> nat" where
  "getCharsetSize password =
     (let size = 0;
          size = (if test isLower password then size + 26 else size);
          size = (if test isUpper password then size + 26 else size);
          size = (if test isDigit password then size + 10 else size);
          size = (if test isSymbol password then size + 32 else size)
      in size)"

definition calculateEntropy :: "js_string \<Rightarrow> number" where
  "calculateEntropy password =
     (let charset = getCharsetSize password
      in Math_log2 (Math_pow charset (length password)))"

section \<open>The state of the page\<close>

record PasswordAnalysis =
  strength :: strength
  score :: int
  entropy :: number
  suggestions :: "string list"
  features :: features

record state =
  password :: js_string
  analysis :: "PasswordAnalysis option"
  isLoading :: bool
  isDarkMode :: bool

definition analyzePasswordLocally :: "(js_string \<Rightarrow> js_string) \<Rightarrow> state \<Rightarrow> state" where
  "analyzePasswordLocally uc st =
     (let fs = featuresOf uc (password st);
          sc = calculateScore fs;
          str = getStrengthLevel sc;
          sugg = generateSuggestions fs;
          ent = calculateEntropy (password st)
      in st\<lparr>analysis := Some \<lparr>strength = str, score = sc, entropy = ent,
                                suggestions = sugg, features = fs\<rparr>\<rparr>)"

definition passwordEffect :: "(js_string \<Rightarrow> js_string) \<Rightarrow> state \<Rightarrow> state" where
  \<comment> \<open>the effect that runs whenever \<open>password\<close> changes\<close>
  "passwordEffect uc st =
     (if password st \<noteq> [] then analyzePasswordLocally uc st
      else st\<lparr>analysis := None\<rparr>)"

section \<open>The scoring conditions as a table\<close>

text \<open>
  The eight conditions of \<open>calculateScore\<close>, in the order in which it evaluates them,
  with the weight each one adds. \<open>calculateScore_weights\<close> below shows that the table and
  the function agree.
\<close>

datatype condition =
  MinLength8 | MinLength12 | Uppercase | Lowercase | Digits | Symbols
  | NoCommonWords | NoKeyboardPatterns

definition scoringOrder :: "condition list" where
  "scoringOrder =
     [MinLength8, MinLength12, Uppercase, Lowercase, Digits, Symbols,
      NoCommonWords, NoKeyboardPatterns]"

fun holds :: "features \<Rightarrow> condition \<Rightarrow> bool" where
  "holds f MinLength8 = (8 \<le> length_f f)"
| "holds f MinLength12 = (12 \<le> length_f f)"
| "holds f Uppercase = hasUppercase f"
| "holds f Lowercase = hasLowercase f"
| "holds f Digits = hasDigits f"
| "holds f Symbols = hasSymbols f"
| "holds f NoCommonWords = (\<not> hasCommonWords f)"
| "holds f NoKeyboardPatterns = (\<not> hasKeyboardPatterns f)"

fun weight :: "condition \<Rightarrow> int" where
  "weight MinLength8 = 20"
| "weight MinLength12 = 10"
| "weight Uppercase = 15"
| "weight Lowercase = 15"
| "weight Digits = 15"
| "weight Symbols = 20"
| "weight NoCommonWords = 15"
| "weight NoKeyboardPatterns = 10"

definition failedConditions :: "features \<Rightarrow> condition list" where
  \<comment> \<open>the conditions that do not earn their weight, in scoring order\<close>
  "failedConditions f = filter (\<lambda>c. \<not> holds f c) scoringOrder"

text \<open>
  The suggestion that \<open>generateSuggestions\<close> pushes under the negation of a scoring
  condition. No branch of \<open>generateSuggestions\<close> tests the length against 12.
\<close>

fun suggestionFor :: "condition \<Rightarrow> string option" where
  "suggestionFor MinLength8 = Some ''Use at least 8 characters''"
| "suggestionFor MinLength12 = None"
| "suggestionFor Uppercase = Some ''Add uppercase letters''"
| "suggestionFor Lowercase = Some ''Add lowercase letters''"
| "suggestionFor Digits = Some ''Include numbers''"
| "suggestionFor Symbols = Some ''Add special characters (!@#$%^&*)''"
| "suggestionFor NoCommonWords = Some ''Avoid common words''"
| "suggestionFor NoKeyboardPatterns = Some ''Avoid keyboard patterns (qwerty, 123)''"

text \<open>The character classes of \<open>getCharsetSize\<close> and the size each one adds.\<close>

datatype charClass = LowerClass | UpperClass | DigitClass | SymbolClass

fun hasClass :: "js_string \<Rightarrow> charClass \<Rightarrow> bool" where
  "hasClass p LowerClass = test isLower p"
| "hasClass p UpperClass = test isUpper p"
| "hasClass p DigitClass = test isDigit p"
| "hasClass p SymbolClass = test isSymbol p"

fun classSize :: "charClass \<Rightarrow> nat" where
  "classSize LowerClass = 26"
| "classSize UpperClass = 26"
| "classSize DigitClass = 10"
| "classSize SymbolClass = 32"

definition classesPresent :: "js_string \<Rightarrow> charClass list" where
  "classesPresent p = filter (hasClass p) [LowerClass, UpperClass, DigitClass, SymbolClass]"

fun strengthRank :: "strength \<Rightarrow> nat" where
  \<comment> \<open>the order weak < moderate < strong\<close>
  "strengthRank Weak = 0"
| "strengthRank Moderate = 1"
| "strengthRank Strong = 2"

text \<open>Two abbreviations for the steps of the two accumulating functions.\<close>

definition bonus :: "bool \<Rightarrow> int \<Rightarrow> int" where
  "bonus b w = (if b then w else 0)"

definition entry :: "bool \<Rightarrow> string \<Rightarrow> string list" where
  "entry b s = (if b then [s] else [])"

section \<open>The score and its bucket\<close>

lemma if_add_bonus: "(if b then s + w else s) = s + bonus b w"
  by (simp add: bonus_def)

lemma bonus_nonneg: "0 \<le> w \<Longrightarrow> 0 \<le> bonus b w"
  by (simp add: bonus_def)

lemma calculateScore_sum:
  "calculateScore f =
     min (bonus (8 \<le> length_f f) 20 + bonus (12 \<le> length_f f) 10
          + bonus (hasUppercase f) 15 + bonus (hasLowercase f) 15
          + bonus (hasDigits f) 15 + bonus (hasSymbols f) 20
          + bonus (\<not> hasCommonWords f) 15 + bonus (\<not> hasKeyboardPatterns f) 10) 100"
  unfolding calculateScore_def Let_def if_add_bonus by simp

lemma sum_weights_Cons:
  "sum_list (map weight (filter (holds f) (c # cs))) =
     bonus (holds f c) (weight c) + sum_list (map weight (filter (holds f) cs))"
  by (simp add: bonus_def)

lemma calculateScore_weights:
  "calculateScore f = min (sum_list (map weight (filter (holds f) scoringOrder))) 100"
  unfolding calculateScore_sum scoringOrder_def sum_weights_Cons by simp

lemma weight_nonneg: "0 \<le> weight c"
  by (cases c) simp_all

text \<open>
  Claim C1. For every feature record, and so for every password, the score returned by
  \<open>calculateScore\<close> lies between 0 and 100: it is the sum of the weights of the
  conditions that hold, every weight is non-negative, and the sum is cut off at 100.
\<close>

theorem calculateScore_range:
  "0 \<le> calculateScore f \<and> calculateScore f \<le> 100
   \<and> calculateScore f = min (sum_list (map weight (filter (holds f) scoringOrder))) 100
   \<and> 0 \<le> weight c"
proof -
  have "0 \<le> calculateScore f \<and> calculateScore f \<le> 100"
    unfolding calculateScore_sum by (simp add: bonus_nonneg)
  then show ?thesis
    using calculateScore_weights [of f] weight_nonneg [of c] by simp
qed

text \<open>
  Claim C2. \<open>getStrengthLevel\<close> returns weak exactly for the scores below 40, moderate
  exactly for the scores from 40 up to but not including 70, and strong exactly for the
  scores from 70 on.
\<close>

theorem getStrengthLevel_buckets:
  "(getStrengthLevel s = Weak \<longleftrightarrow> s < 40)
   \<and> (getStrengthLevel s = Moderate \<longleftrightarrow> 40 \<le> s \<and> s < 70)
   \<and> (getStrengthLevel s = Strong \<longleftrightarrow> 70 \<le> s)"
  by (simp add: getStrengthLevel_def)

text \<open>
  Claim C8. The bucket is a non-decreasing function of the score: of two scores, the
  larger one never gets the lower bucket in the order weak < moderate < strong.
\<close>

theorem getStrengthLevel_mono:
  "s1 \<le> s2 \<Longrightarrow> strengthRank (getStrengthLevel s1) \<le> strengthRank (getStrengthLevel s2)"
  by (simp add: getStrengthLevel_def)

theorem getStrengthLevel_mono_witness:
  "(39::int) \<le> 40 \<and> strengthRank (getStrengthLevel 39) \<le> strengthRank (getStrengthLevel 40)"
proof (rule conjI)
  show le: "(39::int) \<le> 40" by simp
  show "strengthRank (getStrengthLevel 39) \<le> strengthRank (getStrengthLevel 40)"
    by (rule getStrengthLevel_mono [OF le])
qed

section \<open>Suggestions\<close>

lemma if_push_entry: "(if b then xs @ [s] else xs) = xs @ entry b s"
  by (simp add: entry_def)

lemma entry_Nil: "entry b s = [] \<longleftrightarrow> \<not> b"
  by (simp add: entry_def)

lemma generateSuggestions_entries:
  "generateSuggestions f =
     entry (length_f f < 8) ''Use at least 8 characters''
     @ entry (\<not> hasUppercase f) ''Add uppercase letters''
     @ entry (\<not> hasLowercase f) ''Add lowercase letters''
     @ entry (\<not> hasDigits f) ''Include numbers''
     @ entry (\<not> hasSymbols f) ''Add special characters (!@#$%^&*)''
     @ entry (hasCommonWords f) ''Avoid common words''
     @ entry (hasKeyboardPatterns f) ''Avoid keyboard patterns (qwerty, 123)''"
  unfolding generateSuggestions_def Let_def if_push_entry by simp

lemma generateSuggestions_Nil:
  "generateSuggestions f = [] \<longleftrightarrow>
     8 \<le> length_f f \<and> hasUppercase f \<and> hasLowercase f \<and> hasDigits f \<and> hasSymbols f
     \<and> \<not> hasCommonWords f \<and> \<not> hasKeyboardPatterns f"
  unfolding generateSuggestions_entries by (simp add: entry_Nil not_less)

lemma map_filter_failed_Cons:
  "List.map_filter suggestionFor (filter (\<lambda>c. \<not> holds f c) (c # cs)) =
     (if holds f c then [] else (case suggestionFor c of None \<Rightarrow> [] | Some s \<Rightarrow> [s]))
     @ List.map_filter suggestionFor (filter (\<lambda>c. \<not> holds f c) cs)"
  by (simp add: List.map_filter_def split: option.splits)

lemmas evaluate_features =
  featuresOf_def js_def test_def isUpper_def isLower_def isDigit_def isSymbol_def
  checkCommonWords_def checkKeyboardPatterns_def commonWords_def patterns_def
  toLowerCase_def

text \<open>
  Claim C4, as stated: the suggestions hold a corrective entry for every condition that
  does not earn its weight. It fails for the password \<open>correct1!x\<close> of ten characters: two
  conditions fail, the bonus for twelve characters and the uppercase letter, and the
  list has the one entry for the uppercase letter.
\<close>

theorem generateSuggestions_misses_length_bonus:
  "failedConditions (featuresOf id (js ''correct1!x'')) = [MinLength12, Uppercase]
   \<and> generateSuggestions (featuresOf id (js ''correct1!x'')) = [''Add uppercase letters'']"
  by (simp add: failedConditions_def scoringOrder_def generateSuggestions_def
      evaluate_features)

text \<open>
  Claim C4, amended. The suggestions are the corrective entries of the failed conditions
  that have one, in the order in which \<open>calculateScore\<close> evaluates the conditions, and
  the bonus for twelve characters is the only condition without an entry.
\<close>

theorem generateSuggestions_failed_in_order:
  "generateSuggestions f = List.map_filter suggestionFor (failedConditions f)
   \<and> (suggestionFor c = None \<longleftrightarrow> c = MinLength12)"
proof
  show "generateSuggestions f = List.map_filter suggestionFor (failedConditions f)"
    unfolding generateSuggestions_entries failedConditions_def scoringOrder_def
      map_filter_failed_Cons
    by (simp add: entry_def List.map_filter_def not_less)
  show "suggestionFor c = None \<longleftrightarrow> c = MinLength12"
    by (cases c) simp_all
qed

text \<open>
  Claim C10. When \<open>generateSuggestions\<close> returns the empty list, the score is exactly 100
  and the bucket is strong: the seven conditions behind the suggestions earn 110 points,
  or 120 with the bonus for twelve characters, and the cut-off at 100 absorbs the
  difference.
\<close>

theorem no_suggestions_full_score:
  assumes "generateSuggestions f = []"
  shows "calculateScore f = 100 \<and> getStrengthLevel (calculateScore f) = Strong"
proof -
  from assms have h: "8 \<le> length_f f" "hasUppercase f" "hasLowercase f" "hasDigits f"
    "hasSymbols f" "\<not> hasCommonWords f" "\<not> hasKeyboardPatterns f"
    by (simp_all add: generateSuggestions_Nil)
  have "calculateScore f = 100"
    by (simp add: calculateScore_def Let_def h)
  then show ?thesis by (simp add: getStrengthLevel_def)
qed

theorem no_suggestions_full_score_witness:
  "generateSuggestions (featuresOf id (js ''Tr0ub4dor&3xyz!'')) = []
   \<and> calculateScore (featuresOf id (js ''Tr0ub4dor&3xyz!'')) = 100
   \<and> getStrengthLevel (calculateScore (featuresOf id (js ''Tr0ub4dor&3xyz!''))) = Strong"
proof (rule conjI)
  show none: "generateSuggestions (featuresOf id (js ''Tr0ub4dor&3xyz!'')) = []"
    by (simp add: generateSuggestions_def evaluate_features)
  show "calculateScore (featuresOf id (js ''Tr0ub4dor&3xyz!'')) = 100
    \<and> getStrengthLevel (calculateScore (featuresOf id (js ''Tr0ub4dor&3xyz!''))) = Strong"
    by (rule no_suggestions_full_score [OF none])
qed

section \<open>Two passwords evaluated\<close>

lemma features_password123:
  "featuresOf uc (js ''password123'') =
     \<lparr>length_f = 11, hasUppercase = False, hasLowercase = True, hasDigits = True,
      hasSymbols = False, hasCommonWords = True, hasKeyboardPatterns = False\<rparr>"
  by (simp add: evaluate_features)

text \<open>
  Claim C5, as stated: for \<open>password123\<close> the bucket is weak. It is not: the password
  earns 20 for its eleven characters, 15 each for lowercase letters and digits and 10
  for holding none of the keyboard patterns (\<open>1234\<close> is one, \<open>123\<close> is not), which is 60.
\<close>

theorem password123_not_weak:
  "getStrengthLevel (calculateScore (featuresOf id (js ''password123''))) \<noteq> Weak"
  by (simp add: features_password123 calculateScore_def getStrengthLevel_def)

text \<open>
  Claim C5, amended. For \<open>password123\<close> the suggestions include the entry
  \<open>Avoid common words\<close>, the score is 60 and the bucket is moderate.
\<close>

theorem password123_moderate:
  "''Avoid common words'' \<in> set (generateSuggestions (featuresOf uc (js ''password123'')))
   \<and> calculateScore (featuresOf uc (js ''password123'')) = 60
   \<and> getStrengthLevel (calculateScore (featuresOf uc (js ''password123''))) = Moderate"
  by (simp add: features_password123 generateSuggestions_def calculateScore_def
      getStrengthLevel_def)

lemma Math_pow_0_0: "Math_pow 0 0 = Finite 1"
  by (simp add: Math_pow_def)

lemma getCharsetSize_Nil: "getCharsetSize [] = 0"
  by (simp add: getCharsetSize_def test_def)

lemma calculateEntropy_Nil: "calculateEntropy [] = Finite 0"
  by (simp add: calculateEntropy_def getCharsetSize_Nil Math_pow_0_0)

text \<open>
  Claim C6, as stated: for the empty password the evaluation yields a score of 0, the
  bucket weak and a suggestion on the minimum length. It yields none of them: the effect
  calls \<open>analyzePasswordLocally\<close> only for a non-empty password, and for the empty one,
  here in the state in which the page starts, it leaves the page without an analysis.
\<close>

theorem empty_password_no_analysis:
  "analysis (passwordEffect id
     \<lparr>password = js '''', analysis = None, isLoading = False, isDarkMode = False\<rparr>) = None"
  by (simp add: passwordEffect_def js_def)

text \<open>
  Claim C6, amended. For the empty password the evaluation does not fail and produces no
  analysis: whatever the state of the page was, the effect returns it with the analysis
  cleared and nothing else changed, so that there is no score, no bucket and no list of
  suggestions.
\<close>

theorem empty_password_clears_analysis:
  "passwordEffect uc (st\<lparr>password := js ''''\<rparr>) = st\<lparr>password := js '''', analysis := None\<rparr>
   \<and> analysis (passwordEffect uc (st\<lparr>password := js ''''\<rparr>)) = None"
  by (simp add: passwordEffect_def js_def)

section \<open>Properties of the entropy\<close>

lemma getCharsetSize_classes:
  "getCharsetSize p = sum_list (map classSize (classesPresent p))"
  by (simp add: getCharsetSize_def classesPresent_def Let_def)

lemma unit_in_some_class: "isLower c \<or> isUpper c \<or> isDigit c \<or> isSymbol c"
  by (auto simp: isSymbol_def)

lemma nonempty_has_class:
  "p \<noteq> [] \<Longrightarrow> test isLower p \<or> test isUpper p \<or> test isDigit p \<or> test isSymbol p"
  using unit_in_some_class [of "hd p"] by (cases p) (auto simp: test_def)

lemma getCharsetSize_ge_10: "p \<noteq> [] \<Longrightarrow> 10 \<le> getCharsetSize p"
  using nonempty_has_class [of p] by (auto simp: getCharsetSize_def Let_def)

lemma test_replicate: "0 < n \<Longrightarrow> test cls (replicate n x) = cls x"
  by (auto simp: test_def list_ex_iff)

text \<open>
  While the power stays in the range of a double, the entropy is the length times the
  binary logarithm of the charset size, with the size 0 of the empty password read as 1;
  and the entropy is never \<open>NaN\<close> or \<open>-Infinity\<close>.
\<close>

lemma calculateEntropy_in_range:
  assumes "getCharsetSize p ^ length p < 2 ^ 1024 - 2 ^ 970"
  shows "calculateEntropy p =
    Finite (real (length p) * log 2 (real (max 1 (getCharsetSize p))))"
proof (cases "p = []")
  case True
  then show ?thesis
    by (simp add: calculateEntropy_def getCharsetSize_Nil Math_pow_0_0)
next
  case False
  then have g: "10 \<le> getCharsetSize p" by (rule getCharsetSize_ge_10)
  then have pos: "0 < real (getCharsetSize p)" by linarith
  have m: "max 1 (getCharsetSize p) = getCharsetSize p" using g by simp
  have "0 < real (getCharsetSize p) ^ length p" using pos by simp
  moreover have "log 2 (real (getCharsetSize p) ^ length p)
      = real (length p) * log 2 (real (getCharsetSize p))"
    using pos by (simp add: log_nat_power)
  ultimately show ?thesis
    using assms unfolding calculateEntropy_def Let_def Math_pow_def m by simp
qed

lemma calculateEntropy_defined:
  "calculateEntropy p \<noteq> NaN \<and> calculateEntropy p \<noteq> NegInfinity"
proof (cases "p = []")
  case True
  then show ?thesis
    by (simp add: calculateEntropy_def getCharsetSize_Nil Math_pow_0_0)
next
  case False
  then have g: "10 \<le> getCharsetSize p" by (rule getCharsetSize_ge_10)
  then have "0 < getCharsetSize p ^ length p" by simp
  then have "0 < real (getCharsetSize p ^ length p)" by linarith
  then show ?thesis
    unfolding calculateEntropy_def Let_def Math_pow_def by (auto simp del: of_nat_power)
qed

lemma charset_lowercase_400: "getCharsetSize (js (replicate 400 CHR ''a'')) = 26"
  by (simp add: getCharsetSize_def js_def test_replicate isUpper_def isLower_def
      isDigit_def isSymbol_def)

lemma pow_26_400_overflows: "Math_pow 26 400 = PosInfinity"
  by (simp add: Math_pow_def)

text \<open>
  Claim C3. The entropy of a password is its length times the binary logarithm of its
  charset size. \<open>calculateEntropy\<close> takes the logarithm of the power instead, and the
  power leaves the range of a double for a long password: for 400 lowercase letters,
  where the claim gives \<open>400 * log 2 26\<close>, about 1880 bits, \<open>Math.pow(26, 400)\<close> is
  \<open>Infinity\<close> and so is the entropy.
\<close>

theorem calculateEntropy_overflows:
  "calculateEntropy (js (replicate 400 CHR ''a'')) = PosInfinity
   \<and> calculateEntropy (js (replicate 400 CHR ''a''))
       \<noteq> Finite (real (length (js (replicate 400 CHR ''a'')))
             * log 2 (real (max 1 (getCharsetSize (js (replicate 400 CHR ''a''))))))"
proof -
  have "length (js (replicate 400 CHR ''a'')) = 400"
    by (simp add: js_def)
  then have "calculateEntropy (js (replicate 400 CHR ''a'')) = PosInfinity"
    by (simp add: calculateEntropy_def charset_lowercase_400 pow_26_400_overflows)
  then show ?thesis by simp
qed

lemma getCharsetSize_mono:
  assumes "\<And>k. hasClass p k \<Longrightarrow> hasClass q k"
  shows "getCharsetSize p \<le> getCharsetSize q"
proof -
  have "test isLower p \<Longrightarrow> test isLower q" "test isUpper p \<Longrightarrow> test isUpper q"
    "test isDigit p \<Longrightarrow> test isDigit q" "test isSymbol p \<Longrightarrow> test isSymbol q"
    using assms [of LowerClass] assms [of UpperClass] assms [of DigitClass]
      assms [of SymbolClass] by simp_all
  then show ?thesis
    by (auto simp: getCharsetSize_def Let_def)
qed

lemma log2_pow_mono:
  assumes "1 \<le> a" and "a \<le> b"
  shows "number_le (Math_log2 (Math_pow a n)) (Math_log2 (Math_pow b n))"
proof -
  have ab: "a ^ n \<le> b ^ n" using assms by (simp add: power_mono)
  have a1: "1 \<le> a ^ n" using assms by simp
  then have b1: "1 \<le> b ^ n" using ab by linarith
  from a1 have ra: "0 < real (a ^ n)" by linarith
  from b1 have rb: "0 < real (b ^ n)" by linarith
  have "log 2 (real (a ^ n)) \<le> log 2 (real (b ^ n))"
    using ra rb ab by (simp del: of_nat_power)
  then show ?thesis
    using ra rb ab unfolding Math_pow_def by (auto simp del: of_nat_power)
qed

lemma in_classesPresent: "k \<in> set (classesPresent p) \<longleftrightarrow> hasClass p k"
  by (cases k) (auto simp: classesPresent_def)

text \<open>
  Claim C7. Let \<open>q\<close> be a password of the same length as \<open>p\<close> whose character classes
  are those of \<open>p\<close> and one more class \<open>c\<close> that \<open>p\<close> does not have. Then the entropy of
  \<open>q\<close> is not below the entropy of \<open>p\<close>.
\<close>

theorem calculateEntropy_mono_classes:
  assumes len: "length q = length p"
    and new: "c \<notin> set (classesPresent p)"
    and cls: "set (classesPresent q) = insert c (set (classesPresent p))"
  shows "number_le (calculateEntropy p) (calculateEntropy q)"
proof (cases "p = []")
  case True
  with len have "q = []" by simp
  with True show ?thesis
    by (simp add: calculateEntropy_def getCharsetSize_Nil Math_pow_0_0)
next
  case False
  have sub: "hasClass p k \<Longrightarrow> hasClass q k" for k
    using cls by (auto simp flip: in_classesPresent)
  have "getCharsetSize p \<le> getCharsetSize q"
    by (rule getCharsetSize_mono) (rule sub)
  moreover have "1 \<le> getCharsetSize p"
    using getCharsetSize_ge_10 [OF False] by linarith
  ultimately show ?thesis
    unfolding calculateEntropy_def Let_def len by (rule log2_pow_mono [rotated])
qed

theorem calculateEntropy_mono_classes_witness:
  "length (js ''abc1'') = length (js ''abcd'')
   \<and> DigitClass \<notin> set (classesPresent (js ''abcd''))
   \<and> set (classesPresent (js ''abc1'')) = insert DigitClass (set (classesPresent (js ''abcd'')))
   \<and> number_le (calculateEntropy (js ''abcd'')) (calculateEntropy (js ''abc1''))"
proof -
  have len: "length (js ''abc1'') = length (js ''abcd'')"
    by (simp add: js_def)
  have p: "classesPresent (js ''abcd'') = [LowerClass]"
    by (simp add: classesPresent_def js_def test_def isUpper_def isLower_def isDigit_def
        isSymbol_def)
  have q: "classesPresent (js ''abc1'') = [LowerClass, DigitClass]"
    by (simp add: classesPresent_def js_def test_def isUpper_def isLower_def isDigit_def
        isSymbol_def)
  have new: "DigitClass \<notin> set (classesPresent (js ''abcd''))"
    by (simp add: p)
  have cls: "set (classesPresent (js ''abc1'')) =
      insert DigitClass (set (classesPresent (js ''abcd'')))"
    by (auto simp: p q)
  from len new cls calculateEntropy_mono_classes [OF len new cls] show ?thesis
    by (intro conjI)
qed

section \<open>The analysis depends on the password alone\<close>

text \<open>
  Claim C9. \<open>analyzePasswordLocally\<close> reads the password and nothing else of the state:
  two states that hold the same password get the same analysis, in every field, however
  they differ in the previous analysis, the loading flag and the dark mode; and running
  it a second time changes nothing.
\<close>

theorem analyzePasswordLocally_deterministic:
  "password s1 = password s2 \<Longrightarrow>
     analysis (analyzePasswordLocally uc s1) = analysis (analyzePasswordLocally uc s2)
     \<and> analyzePasswordLocally uc (analyzePasswordLocally uc s1) = analyzePasswordLocally uc s1"
  by (simp add: analyzePasswordLocally_def Let_def)

theorem analyzePasswordLocally_deterministic_witness:
  "password \<lparr>password = js ''abc'', analysis = None, isLoading = False, isDarkMode = False\<rparr>
     = password \<lparr>password = js ''abc'', analysis = None, isLoading = True, isDarkMode = True\<rparr>
   \<and> (analysis (analyzePasswordLocally id
          \<lparr>password = js ''abc'', analysis = None, isLoading = False, isDarkMode = False\<rparr>)
       = analysis (analyzePasswordLocally id
          \<lparr>password = js ''abc'', analysis = None, isLoading = True, isDarkMode = True\<rparr>)
      \<and> analyzePasswordLocally id (analyzePasswordLocally id
          \<lparr>password = js ''abc'', analysis = None, isLoading = False, isDarkMode = False\<rparr>)
       = analyzePasswordLocally id
          \<lparr>password = js ''abc'', analysis = None, isLoading = False, isDarkMode = False\<rparr>)"
proof (rule conjI)
  show eq: "password \<lparr>password = js ''abc'', analysis = None, isLoading = False,
        isDarkMode = False\<rparr>
      = password \<lparr>password = js ''abc'', analysis = None, isLoading = True,
        isDarkMode = True\<rparr>"
    by simp
  show "analysis (analyzePasswordLocally id
          \<lparr>password = js ''abc'', analysis = None, isLoading = False, isDarkMode = False\<rparr>)
       = analysis (analyzePasswordLocally id
          \<lparr>password = js ''abc'', analysis = None, isLoading = True, isDarkMode = True\<rparr>)
      \<and> analyzePasswordLocally id (analyzePasswordLocally id
          \<lparr>password = js ''abc'', analysis = None, isLoading = False, isDarkMode = False\<rparr>)
       = analyzePasswordLocally id
          \<lparr>password = js ''abc'', analysis = None, isLoading = False, isDarkMode = False\<rparr>"
    by (rule analyzePasswordLocally_deterministic [OF eq])
qed

end
